theory Spec2Isabelle
  imports Main "HOL-Library.Word"
begin

unbundle bit_operations_syntax

section \<open>Package txtypes: transfer and withdrawal transactions\<close>

text \<open>
  The two source files model the L2 transfer (\<^verbatim>\<open>types/txtypes/transfer.go\<close>) and the
  L2 withdrawal (\<^verbatim>\<open>types/txtypes/withdraw.go\<close>). Go's fixed-width integers are words:
  \<^verbatim>\<open>int64\<close> and \<^verbatim>\<open>uint64\<close> are \<open>64 word\<close> (read with \<open>sint\<close> resp. \<open>uint\<close>), \<^verbatim>\<open>int16\<close> is
  \<open>16 word\<close> read with \<open>sint\<close>, \<^verbatim>\<open>uint8\<close> is \<open>8 word\<close>, \<^verbatim>\<open>uint32\<close> is \<open>32 word\<close>. The conversion
  \<^verbatim>\<open>uint64(x)\<close> of an \<^verbatim>\<open>int64\<close> keeps the bit pattern, so it is the identity on \<open>64 word\<close>;
  \<^verbatim>\<open>uint32(x)\<close> of a \<^verbatim>\<open>uint8\<close> zero-extends (\<open>ucast\<close>) and of an \<^verbatim>\<open>int16\<close> sign-extends
  (\<open>scast\<close>).
\<close>

type_synonym int64 = "64 word"
type_synonym uint64 = "64 word"
type_synonym uint32 = "32 word"
type_synonym int16 = "16 word"
type_synonym uint8 = "8 word"

subsection \<open>Declarations the two files use but do not contain\<close>

text \<open>
  The bounds, the route and transaction-type constants and the L1 template are declared
  elsewhere in the package. They are Go constants, so every expression over them
  (\<^verbatim>\<open>MinAccountIndex+1\<close>) is evaluated exactly, without wrap-around, and a comparison with a
  field compares the field's numeric value with that exact number. They are taken as a
  parameter: a record of mathematical integers and one string.
\<close>

record constants =
  MinAccountIndex :: int
  MaxAccountIndex :: int
  MinApiKeyIndex :: int
  MaxApiKeyIndex :: int
  MinAssetIndex :: int
  MaxAssetIndex :: int
  AssetRouteType_Perps :: int
  AssetRouteType_Spot :: int
  MaxTransferAmount :: int
  MaxWithdrawalAmount :: int
  MinNonce :: int
  MaxTimestamp :: int
  TxTypeL2Transfer :: int
  TxTypeL2Withdraw :: int
  TemplateTransfer :: string

text \<open>The package's error values, one constructor per error variable the two files return.\<close>

datatype error =
    ErrFromAccountIndexTooLow
  | ErrFromAccountIndexTooHigh
  | ErrApiKeyIndexTooLow
  | ErrApiKeyIndexTooHigh
  | ErrToAccountIndexTooLow
  | ErrToAccountIndexTooHigh
  | ErrAssetIndexTooLow
  | ErrAssetIndexTooHigh
  | ErrRouteTypeInvalid
  | ErrTransferAmountTooLow
  | ErrTransferAmountTooHigh
  | ErrTransferFeeNegative
  | ErrTransferFeeTooHigh
  | ErrWithdrawalAmountTooLow
  | ErrWithdrawalAmountTooHigh
  | ErrNonceTooLow
  | ErrExpiredAtInvalid

text \<open>
  The field and hash library (\<^verbatim>\<open>poseidon_crypto\<close>) is an external dependency: the
  conversions into the Goldilocks field, the sponge hash into the quintic extension and
  its byte serialisation are parameters, over any type \<open>'e\<close> of field elements and any
  type \<open>'h\<close> of hash outputs.
\<close>

record ('e, 'h) prims =
  FromUint32 :: "uint32 \<Rightarrow> 'e"
  FromInt64 :: "int64 \<Rightarrow> 'e"
  FromUint64 :: "uint64 \<Rightarrow> 'e"
  HashToQuinticExtension :: "'e list \<Rightarrow> 'h"
  ToLittleEndianBytes :: "'h \<Rightarrow> uint8 list"

subsection \<open>The transaction structs\<close>

record L2TransferTxInfo =
  FromAccountIndex :: int64
  ApiKeyIndex :: uint8
  ToAccountIndex :: int64
  AssetIndex :: int16
  FromRouteType :: uint8
  ToRouteType :: uint8
  Amount :: int64
  USDCFee :: int64
  Memo :: "uint8 list"
  ExpiredAt :: int64
  Nonce :: int64
  Sig :: "uint8 list"
  L1Sig :: string
  SignedHash :: string

record L2WithdrawTxInfo =
  FromAccountIndex :: int64
  ApiKeyIndex :: uint8
  AssetIndex :: int16
  RouteType :: uint8
  Amount :: uint64
  ExpiredAt :: int64
  Nonce :: int64
  Sig :: "uint8 list"
  SignedHash :: string

subsection \<open>Validate\<close>

text \<open>\<^verbatim>\<open>func (txInfo *L2TransferTxInfo) Validate() error\<close>; \<open>None\<close> is \<^verbatim>\<open>nil\<close>.\<close>

definition L2TransferTxInfo_Validate :: "constants \<Rightarrow> L2TransferTxInfo \<Rightarrow> error option" where
  "L2TransferTxInfo_Validate K txInfo =
    (if sint (L2TransferTxInfo.FromAccountIndex txInfo) < MinAccountIndex K + 1
       then Some ErrFromAccountIndexTooLow
     else if sint (L2TransferTxInfo.FromAccountIndex txInfo) > MaxAccountIndex K
       then Some ErrFromAccountIndexTooHigh
     else if uint (L2TransferTxInfo.ApiKeyIndex txInfo) < MinApiKeyIndex K
       then Some ErrApiKeyIndexTooLow
     else if uint (L2TransferTxInfo.ApiKeyIndex txInfo) > MaxApiKeyIndex K
       then Some ErrApiKeyIndexTooHigh
     else if sint (ToAccountIndex txInfo) < MinAccountIndex K
       then Some ErrToAccountIndexTooLow
     else if sint (ToAccountIndex txInfo) > MaxAccountIndex K
       then Some ErrToAccountIndexTooHigh
     else if sint (L2TransferTxInfo.AssetIndex txInfo) < MinAssetIndex K
       then Some ErrAssetIndexTooLow
     else if sint (L2TransferTxInfo.AssetIndex txInfo) > MaxAssetIndex K
       then Some ErrAssetIndexTooHigh
     else if uint (FromRouteType txInfo) \<noteq> AssetRouteType_Perps K
           \<and> uint (FromRouteType txInfo) \<noteq> AssetRouteType_Spot K
       then Some ErrRouteTypeInvalid
     else if uint (ToRouteType txInfo) \<noteq> AssetRouteType_Perps K
           \<and> uint (ToRouteType txInfo) \<noteq> AssetRouteType_Spot K
       then Some ErrRouteTypeInvalid
     else if sint (L2TransferTxInfo.Amount txInfo) \<le> 0
       then Some ErrTransferAmountTooLow
     else if sint (L2TransferTxInfo.Amount txInfo) > MaxTransferAmount K
       then Some ErrTransferAmountTooHigh
     else if sint (USDCFee txInfo) < 0
       then Some ErrTransferFeeNegative
     else if sint (USDCFee txInfo) > MaxTransferAmount K
       then Some ErrTransferFeeTooHigh
     else if sint (L2TransferTxInfo.Nonce txInfo) < MinNonce K
       then Some ErrNonceTooLow
     else if sint (L2TransferTxInfo.ExpiredAt txInfo) < 0
           \<or> sint (L2TransferTxInfo.ExpiredAt txInfo) > MaxTimestamp K
       then Some ErrExpiredAtInvalid
     else None)"

text \<open>\<^verbatim>\<open>func (txInfo *L2WithdrawTxInfo) Validate() error\<close>. The amount is unsigned here.\<close>

definition L2WithdrawTxInfo_Validate :: "constants \<Rightarrow> L2WithdrawTxInfo \<Rightarrow> error option" where
  "L2WithdrawTxInfo_Validate K txInfo =
    (if sint (L2WithdrawTxInfo.FromAccountIndex txInfo) < MinAccountIndex K
       then Some ErrFromAccountIndexTooLow
     else if sint (L2WithdrawTxInfo.FromAccountIndex txInfo) > MaxAccountIndex K
       then Some ErrFromAccountIndexTooHigh
     else if uint (L2WithdrawTxInfo.ApiKeyIndex txInfo) < MinApiKeyIndex K
       then Some ErrApiKeyIndexTooLow
     else if uint (L2WithdrawTxInfo.ApiKeyIndex txInfo) > MaxApiKeyIndex K
       then Some ErrApiKeyIndexTooHigh
     else if sint (L2WithdrawTxInfo.AssetIndex txInfo) < MinAssetIndex K
       then Some ErrAssetIndexTooLow
     else if sint (L2WithdrawTxInfo.AssetIndex txInfo) > MaxAssetIndex K
       then Some ErrAssetIndexTooHigh
     else if uint (RouteType txInfo) \<noteq> AssetRouteType_Perps K
           \<and> uint (RouteType txInfo) \<noteq> AssetRouteType_Spot K
       then Some ErrRouteTypeInvalid
     else if L2WithdrawTxInfo.Amount txInfo = 0
       then Some ErrWithdrawalAmountTooLow
     else if uint (L2WithdrawTxInfo.Amount txInfo) > MaxWithdrawalAmount K
       then Some ErrWithdrawalAmountTooHigh
     else if sint (L2WithdrawTxInfo.Nonce txInfo) < MinNonce K
       then Some ErrNonceTooLow
     else if sint (L2WithdrawTxInfo.ExpiredAt txInfo) < 0
           \<or> sint (L2WithdrawTxInfo.ExpiredAt txInfo) > MaxTimestamp K
       then Some ErrExpiredAtInvalid
     else None)"

subsection \<open>Hash\<close>

text \<open>
  The two limbs of a 64-bit quantity as the preimage builders compute them:
  \<^verbatim>\<open>x & 0xFFFFFFFF\<close> and \<^verbatim>\<open>x >> 32\<close> on \<^verbatim>\<open>uint64\<close>.
\<close>

definition limb_low :: "uint64 \<Rightarrow> uint64" where
  "limb_low x = x AND 0xFFFFFFFF"

definition limb_high :: "uint64 \<Rightarrow> uint64" where
  "limb_high x = drop_bit 32 x"

text \<open>
  The slice \<^verbatim>\<open>elems\<close> at the end of \<^verbatim>\<open>L2TransferTxInfo.Hash\<close>: it starts empty
  (\<^verbatim>\<open>make([]g.Element, 0, 14)\<close>) and each \<^verbatim>\<open>append\<close> adds one element at the end.
\<close>

definition L2TransferTxInfo_Hash_elems ::
  "('e, 'h) prims \<Rightarrow> constants \<Rightarrow> L2TransferTxInfo \<Rightarrow> uint32 \<Rightarrow> 'e list" where
  "L2TransferTxInfo_Hash_elems P K txInfo lighterChainId =
    (let elems = [];
         elems = elems @ [FromUint32 P lighterChainId];
         elems = elems @ [FromUint32 P (word_of_int (TxTypeL2Transfer K))];
         elems = elems @ [FromInt64 P (L2TransferTxInfo.Nonce txInfo)];
         elems = elems @ [FromInt64 P (L2TransferTxInfo.ExpiredAt txInfo)];
         elems = elems @ [FromInt64 P (L2TransferTxInfo.FromAccountIndex txInfo)];
         elems = elems @ [FromUint32 P (ucast (L2TransferTxInfo.ApiKeyIndex txInfo))];
         elems = elems @ [FromInt64 P (ToAccountIndex txInfo)];
         elems = elems @ [FromUint32 P (scast (L2TransferTxInfo.AssetIndex txInfo))];
         elems = elems @ [FromUint32 P (ucast (FromRouteType txInfo))];
         elems = elems @ [FromUint32 P (ucast (ToRouteType txInfo))];
         elems = elems @ [FromUint64 P (limb_low (L2TransferTxInfo.Amount txInfo))];
         elems = elems @ [FromUint64 P (limb_high (L2TransferTxInfo.Amount txInfo))];
         elems = elems @ [FromUint64 P (limb_low (USDCFee txInfo))];
         elems = elems @ [FromUint64 P (limb_high (USDCFee txInfo))]
     in elems)"

text \<open>
  \<^verbatim>\<open>func (txInfo *L2TransferTxInfo) Hash(lighterChainId uint32, extra ...g.Element)
  (msgHash []byte, err error)\<close>. The variadic \<^verbatim>\<open>extra\<close> is a parameter of the model too;
  the body never reads it.
\<close>

definition L2TransferTxInfo_Hash ::
  "('e, 'h) prims \<Rightarrow> constants \<Rightarrow> L2TransferTxInfo \<Rightarrow> uint32 \<Rightarrow> 'e list
    \<Rightarrow> uint8 list \<times> error option" where
  "L2TransferTxInfo_Hash P K txInfo lighterChainId extra =
    (ToLittleEndianBytes P
       (HashToQuinticExtension P (L2TransferTxInfo_Hash_elems P K txInfo lighterChainId)),
     None)"

text \<open>The slice \<^verbatim>\<open>elems\<close> at the end of \<^verbatim>\<open>L2WithdrawTxInfo.Hash\<close>.\<close>

definition L2WithdrawTxInfo_Hash_elems ::
  "('e, 'h) prims \<Rightarrow> constants \<Rightarrow> L2WithdrawTxInfo \<Rightarrow> uint32 \<Rightarrow> 'e list" where
  "L2WithdrawTxInfo_Hash_elems P K txInfo lighterChainId =
    (let elems = [];
         elems = elems @ [FromUint32 P lighterChainId];
         elems = elems @ [FromUint32 P (word_of_int (TxTypeL2Withdraw K))];
         elems = elems @ [FromInt64 P (L2WithdrawTxInfo.Nonce txInfo)];
         elems = elems @ [FromInt64 P (L2WithdrawTxInfo.ExpiredAt txInfo)];
         elems = elems @ [FromInt64 P (L2WithdrawTxInfo.FromAccountIndex txInfo)];
         elems = elems @ [FromUint32 P (ucast (L2WithdrawTxInfo.ApiKeyIndex txInfo))];
         elems = elems @ [FromUint32 P (scast (L2WithdrawTxInfo.AssetIndex txInfo))];
         elems = elems @ [FromUint32 P (ucast (RouteType txInfo))];
         elems = elems @ [FromUint64 P (limb_low (L2WithdrawTxInfo.Amount txInfo))];
         elems = elems @ [FromUint64 P (limb_high (L2WithdrawTxInfo.Amount txInfo))]
     in elems)"

text \<open>\<^verbatim>\<open>func (txInfo *L2WithdrawTxInfo) Hash(lighterChainId uint32, extra ...g.Element)
  (msgHash []byte, err error)\<close>.\<close>

definition L2WithdrawTxInfo_Hash ::
  "('e, 'h) prims \<Rightarrow> constants \<Rightarrow> L2WithdrawTxInfo \<Rightarrow> uint32 \<Rightarrow> 'e list
    \<Rightarrow> uint8 list \<times> error option" where
  "L2WithdrawTxInfo_Hash P K txInfo lighterChainId extra =
    (ToLittleEndianBytes P
       (HashToQuinticExtension P (L2WithdrawTxInfo_Hash_elems P K txInfo lighterChainId)),
     None)"

subsection \<open>Hash as a run in a world with state\<close>

text \<open>
  A Go call may read and write state that its signature does not show: package variables,
  a random source, a cache. To state that \<^verbatim>\<open>Hash\<close> has no such dependency, the same two
  bodies are written once more with the state explicit. The library is external, so each
  of its functions is a state transformer over a library state \<open>'s\<close> of any type: it takes
  the state before the call and returns its result with the state after. The receiver is
  a pointer, so the struct it points to belongs to the world a call runs in, and the world
  after the call is part of what the call returns.
\<close>

record ('e, 'h, 's) library =
  call_FromUint32 :: "uint32 \<Rightarrow> 's \<Rightarrow> 'e \<times> 's"
  call_FromInt64 :: "int64 \<Rightarrow> 's \<Rightarrow> 'e \<times> 's"
  call_FromUint64 :: "uint64 \<Rightarrow> 's \<Rightarrow> 'e \<times> 's"
  call_HashToQuinticExtension :: "'e list \<Rightarrow> 's \<Rightarrow> 'h \<times> 's"
  call_ToLittleEndianBytes :: "'h \<Rightarrow> 's \<Rightarrow> uint8 list \<times> 's"

record ('t, 's) world =
  receiver :: 't
  libstate :: 's

text \<open>
  \<^verbatim>\<open>elems = append(elems, f(x))\<close>: the call \<^verbatim>\<open>f(x)\<close> runs in the current library state, its
  result goes to the end of the slice.
\<close>

definition append_call ::
  "('a \<Rightarrow> 's \<Rightarrow> 'e \<times> 's) \<Rightarrow> 'a \<Rightarrow> 'e list \<times> 's \<Rightarrow> 'e list \<times> 's" where
  "append_call f x st =
    (case st of (elems, s) \<Rightarrow> (case f x s of (e, s') \<Rightarrow> (elems @ [e], s')))"

text \<open>The 14 appends of \<^verbatim>\<open>L2TransferTxInfo.Hash\<close>, in source order, and the body.\<close>

definition L2TransferTxInfo_Hash_run_elems ::
  "('e, 'h, 's) library \<Rightarrow> constants \<Rightarrow> L2TransferTxInfo \<Rightarrow> uint32 \<Rightarrow> 's \<Rightarrow> 'e list \<times> 's" where
  "L2TransferTxInfo_Hash_run_elems L K txInfo lighterChainId s0 =
    (let st = ([], s0);
         st = append_call (call_FromUint32 L) lighterChainId st;
         st = append_call (call_FromUint32 L) (word_of_int (TxTypeL2Transfer K)) st;
         st = append_call (call_FromInt64 L) (L2TransferTxInfo.Nonce txInfo) st;
         st = append_call (call_FromInt64 L) (L2TransferTxInfo.ExpiredAt txInfo) st;
         st = append_call (call_FromInt64 L) (L2TransferTxInfo.FromAccountIndex txInfo) st;
         st = append_call (call_FromUint32 L) (ucast (L2TransferTxInfo.ApiKeyIndex txInfo)) st;
         st = append_call (call_FromInt64 L) (ToAccountIndex txInfo) st;
         st = append_call (call_FromUint32 L) (scast (L2TransferTxInfo.AssetIndex txInfo)) st;
         st = append_call (call_FromUint32 L) (ucast (FromRouteType txInfo)) st;
         st = append_call (call_FromUint32 L) (ucast (ToRouteType txInfo)) st;
         st = append_call (call_FromUint64 L) (limb_low (L2TransferTxInfo.Amount txInfo)) st;
         st = append_call (call_FromUint64 L) (limb_high (L2TransferTxInfo.Amount txInfo)) st;
         st = append_call (call_FromUint64 L) (limb_low (USDCFee txInfo)) st;
         st = append_call (call_FromUint64 L) (limb_high (USDCFee txInfo)) st
     in st)"

definition L2TransferTxInfo_Hash_run ::
  "('e, 'h, 's) library \<Rightarrow> constants \<Rightarrow> uint32 \<Rightarrow> 'e list \<Rightarrow> (L2TransferTxInfo, 's) world
    \<Rightarrow> (uint8 list \<times> error option) \<times> (L2TransferTxInfo, 's) world" where
  "L2TransferTxInfo_Hash_run L K lighterChainId extra w =
    (case L2TransferTxInfo_Hash_run_elems L K (receiver w) lighterChainId (libstate w) of
       (elems, s) \<Rightarrow>
         (case call_HashToQuinticExtension L elems s of
            (h, s) \<Rightarrow>
              (case call_ToLittleEndianBytes L h s of
                 (msgHash, s) \<Rightarrow> ((msgHash, None), w\<lparr>libstate := s\<rparr>))))"

text \<open>The 10 appends of \<^verbatim>\<open>L2WithdrawTxInfo.Hash\<close>, in source order, and the body.\<close>

definition L2WithdrawTxInfo_Hash_run_elems ::
  "('e, 'h, 's) library \<Rightarrow> constants \<Rightarrow> L2WithdrawTxInfo \<Rightarrow> uint32 \<Rightarrow> 's \<Rightarrow> 'e list \<times> 's" where
  "L2WithdrawTxInfo_Hash_run_elems L K txInfo lighterChainId s0 =
    (let st = ([], s0);
         st = append_call (call_FromUint32 L) lighterChainId st;
         st = append_call (call_FromUint32 L) (word_of_int (TxTypeL2Withdraw K)) st;
         st = append_call (call_FromInt64 L) (L2WithdrawTxInfo.Nonce txInfo) st;
         st = append_call (call_FromInt64 L) (L2WithdrawTxInfo.ExpiredAt txInfo) st;
         st = append_call (call_FromInt64 L) (L2WithdrawTxInfo.FromAccountIndex txInfo) st;
         st = append_call (call_FromUint32 L) (ucast (L2WithdrawTxInfo.ApiKeyIndex txInfo)) st;
         st = append_call (call_FromUint32 L) (scast (L2WithdrawTxInfo.AssetIndex txInfo)) st;
         st = append_call (call_FromUint32 L) (ucast (RouteType txInfo)) st;
         st = append_call (call_FromUint64 L) (limb_low (L2WithdrawTxInfo.Amount txInfo)) st;
         st = append_call (call_FromUint64 L) (limb_high (L2WithdrawTxInfo.Amount txInfo)) st
     in st)"

definition L2WithdrawTxInfo_Hash_run ::
  "('e, 'h, 's) library \<Rightarrow> constants \<Rightarrow> uint32 \<Rightarrow> 'e list \<Rightarrow> (L2WithdrawTxInfo, 's) world
    \<Rightarrow> (uint8 list \<times> error option) \<times> (L2WithdrawTxInfo, 's) world" where
  "L2WithdrawTxInfo_Hash_run L K lighterChainId extra w =
    (case L2WithdrawTxInfo_Hash_run_elems L K (receiver w) lighterChainId (libstate w) of
       (elems, s) \<Rightarrow>
         (case call_HashToQuinticExtension L elems s of
            (h, s) \<Rightarrow>
              (case call_ToLittleEndianBytes L h s of
                 (msgHash, s) \<Rightarrow> ((msgHash, None), w\<lparr>libstate := s\<rparr>))))"



definition pure_library :: "('e, 'h) prims \<Rightarrow> ('e, 'h, 's) library" where
  "pure_library P =
    \<lparr>call_FromUint32 = (\<lambda>x s. (FromUint32 P x, s)),
     call_FromInt64 = (\<lambda>x s. (FromInt64 P x, s)),
     call_FromUint64 = (\<lambda>x s. (FromUint64 P x, s)),
     call_HashToQuinticExtension = (\<lambda>xs s. (HashToQuinticExtension P xs, s)),
     call_ToLittleEndianBytes = (\<lambda>h s. (ToLittleEndianBytes P h, s))\<rparr>"

subsection \<open>GetL1SignatureBody\<close>

text \<open>
  \<^verbatim>\<open>hex.EncodeToString\<close> of Go's standard library: for every byte \<^verbatim>\<open>v\<close> the two characters
  \<^verbatim>\<open>hextable[v>>4]\<close> and \<^verbatim>\<open>hextable[v&0x0f]\<close>, with \<^verbatim>\<open>hextable = "0123456789abcdef"\<close>.
  Both indices are below 16, so the lookups are in range.
\<close>

definition hextable :: string where
  "hextable = ''0123456789abcdef''"

fun EncodeToString :: "uint8 list \<Rightarrow> string" where
  "EncodeToString [] = []"
| "EncodeToString (v # src) =
     hextable ! unat (drop_bit 4 v) # hextable ! unat (v AND 0x0f) # EncodeToString src"

text \<open>
  \<^verbatim>\<open>strings.Replace(s, old, new, n)\<close> of Go's standard library: a copy of \<^verbatim>\<open>s\<close> with the
  first \<^verbatim>\<open>n\<close> non-overlapping instances of \<^verbatim>\<open>old\<close> replaced by \<^verbatim>\<open>new\<close>, scanning from the
  left; no limit when \<^verbatim>\<open>n < 0\<close>. \<open>replace_n k\<close> does at most \<open>k\<close> replacements of a
  non-empty \<^verbatim>\<open>old\<close>. An empty \<^verbatim>\<open>old\<close> matches at the beginning and after every character
  (\<open>insert_after\<close>; strings are taken as sequences of one-byte characters, which is what
  a hexadecimal string is).
\<close>

fun replace_n :: "nat \<Rightarrow> string \<Rightarrow> string \<Rightarrow> string \<Rightarrow> string" where
  "replace_n 0 s old new = s"
| "replace_n (Suc k) [] old new = []"
| "replace_n (Suc k) (c # cs) old new =
     (if take (length old) (c # cs) = old
      then new @ replace_n k (drop (length old) (c # cs)) old new
      else c # replace_n (Suc k) cs old new)"

fun insert_after :: "nat \<Rightarrow> string \<Rightarrow> string \<Rightarrow> string" where
  "insert_after 0 s new = s"
| "insert_after (Suc k) [] new = []"
| "insert_after (Suc k) (c # cs) new = c # new @ insert_after k cs new"

definition Replace :: "string \<Rightarrow> string \<Rightarrow> string \<Rightarrow> int \<Rightarrow> string" where
  "Replace s old new n =
    (if old = new \<or> n = 0 then s
     else if old = []
       then new @ insert_after
              ((if n < 0 then length s + 1 else min (nat n) (length s + 1)) - 1) s new
     else replace_n (if n < 0 then length s else nat n) s old new)"

text \<open>
  \<^verbatim>\<open>func (txInfo *L2TransferTxInfo) GetL1SignatureBody(chainId uint32) string\<close>.
  \<^verbatim>\<open>fmt.Sprintf\<close> (standard library) and the package's helper \<^verbatim>\<open>getHex10FromUint64\<close>
  (declared outside the two files) are parameters; \<^verbatim>\<open>Sprintf\<close> receives the template and
  its operands in order. \<^verbatim>\<open>txInfo.Memo[:]\<close> is the whole 32-byte array.
\<close>

definition L2TransferTxInfo_GetL1SignatureBody ::
  "(string \<Rightarrow> string list \<Rightarrow> string) \<Rightarrow> (uint64 \<Rightarrow> string) \<Rightarrow> constants
    \<Rightarrow> L2TransferTxInfo \<Rightarrow> uint32 \<Rightarrow> string" where
  "L2TransferTxInfo_GetL1SignatureBody Sprintf getHex10FromUint64 K txInfo chainId =
    (let hexMemo = EncodeToString (Memo txInfo);
         hexMemo = Replace hexMemo ''0x'' [] 1;
         signatureBody = Sprintf (TemplateTransfer K)
           [getHex10FromUint64 (L2TransferTxInfo.Nonce txInfo),
            getHex10FromUint64 (L2TransferTxInfo.FromAccountIndex txInfo),
            getHex10FromUint64 (ucast (FromRouteType txInfo)),
            getHex10FromUint64 (ucast (L2TransferTxInfo.ApiKeyIndex txInfo)),
            getHex10FromUint64 (ToAccountIndex txInfo),
            getHex10FromUint64 (ucast (ToRouteType txInfo)),
            getHex10FromUint64 (scast (L2TransferTxInfo.AssetIndex txInfo)),
            getHex10FromUint64 (L2TransferTxInfo.Amount txInfo),
            getHex10FromUint64 (USDCFee txInfo),
            getHex10FromUint64 (ucast chainId),
            hexMemo]
     in signatureBody)"

subsection \<open>Field bounds as predicates\<close>

text \<open>
  The bounds \<^verbatim>\<open>Validate\<close> enforces, grouped so that a statement can hold all fields but
  one within their bounds.
\<close>

definition transfer_from_ok :: "constants \<Rightarrow> L2TransferTxInfo \<Rightarrow> bool" where
  "transfer_from_ok K t =
    (MinAccountIndex K + 1 \<le> sint (L2TransferTxInfo.FromAccountIndex t)
     \<and> sint (L2TransferTxInfo.FromAccountIndex t) \<le> MaxAccountIndex K)"

definition transfer_to_ok :: "constants \<Rightarrow> L2TransferTxInfo \<Rightarrow> bool" where
  "transfer_to_ok K t =
    (MinAccountIndex K \<le> sint (ToAccountIndex t)
     \<and> sint (ToAccountIndex t) \<le> MaxAccountIndex K)"

definition transfer_amount_ok :: "constants \<Rightarrow> L2TransferTxInfo \<Rightarrow> bool" where
  "transfer_amount_ok K t =
    (0 < sint (L2TransferTxInfo.Amount t)
     \<and> sint (L2TransferTxInfo.Amount t) \<le> MaxTransferAmount K)"

definition transfer_rest_ok :: "constants \<Rightarrow> L2TransferTxInfo \<Rightarrow> bool" where
  "transfer_rest_ok K t =
    (MinApiKeyIndex K \<le> uint (L2TransferTxInfo.ApiKeyIndex t)
     \<and> uint (L2TransferTxInfo.ApiKeyIndex t) \<le> MaxApiKeyIndex K
     \<and> MinAssetIndex K \<le> sint (L2TransferTxInfo.AssetIndex t)
     \<and> sint (L2TransferTxInfo.AssetIndex t) \<le> MaxAssetIndex K
     \<and> (uint (FromRouteType t) = AssetRouteType_Perps K
          \<or> uint (FromRouteType t) = AssetRouteType_Spot K)
     \<and> (uint (ToRouteType t) = AssetRouteType_Perps K
          \<or> uint (ToRouteType t) = AssetRouteType_Spot K)
     \<and> 0 \<le> sint (USDCFee t) \<and> sint (USDCFee t) \<le> MaxTransferAmount K
     \<and> MinNonce K \<le> sint (L2TransferTxInfo.Nonce t)
     \<and> 0 \<le> sint (L2TransferTxInfo.ExpiredAt t)
     \<and> sint (L2TransferTxInfo.ExpiredAt t) \<le> MaxTimestamp K)"

definition withdraw_from_ok :: "constants \<Rightarrow> L2WithdrawTxInfo \<Rightarrow> bool" where
  "withdraw_from_ok K w =
    (MinAccountIndex K \<le> sint (L2WithdrawTxInfo.FromAccountIndex w)
     \<and> sint (L2WithdrawTxInfo.FromAccountIndex w) \<le> MaxAccountIndex K)"

definition withdraw_route_ok :: "constants \<Rightarrow> L2WithdrawTxInfo \<Rightarrow> bool" where
  "withdraw_route_ok K w =
    (uint (RouteType w) = AssetRouteType_Perps K \<or> uint (RouteType w) = AssetRouteType_Spot K)"

definition withdraw_rest_ok :: "constants \<Rightarrow> L2WithdrawTxInfo \<Rightarrow> bool" where
  "withdraw_rest_ok K w =
    (MinApiKeyIndex K \<le> uint (L2WithdrawTxInfo.ApiKeyIndex w)
     \<and> uint (L2WithdrawTxInfo.ApiKeyIndex w) \<le> MaxApiKeyIndex K
     \<and> MinAssetIndex K \<le> sint (L2WithdrawTxInfo.AssetIndex w)
     \<and> sint (L2WithdrawTxInfo.AssetIndex w) \<le> MaxAssetIndex K
     \<and> L2WithdrawTxInfo.Amount w \<noteq> 0
     \<and> uint (L2WithdrawTxInfo.Amount w) \<le> MaxWithdrawalAmount K
     \<and> MinNonce K \<le> sint (L2WithdrawTxInfo.Nonce w)
     \<and> 0 \<le> sint (L2WithdrawTxInfo.ExpiredAt w)
     \<and> sint (L2WithdrawTxInfo.ExpiredAt w) \<le> MaxTimestamp K)"

subsection \<open>Sample values\<close>

text \<open>
  One configuration of the constants and one transaction of each kind, on which the
  theorems with hypotheses are instantiated. The numbers are examples, not a statement
  about the package's declarations.
\<close>

definition sample_constants :: constants where
  "sample_constants =
    \<lparr>MinAccountIndex = 0, MaxAccountIndex = 281474976710654,
     MinApiKeyIndex = 0, MaxApiKeyIndex = 254,
     MinAssetIndex = 1, MaxAssetIndex = 62,
     AssetRouteType_Perps = 0, AssetRouteType_Spot = 1,
     MaxTransferAmount = 1152921504606846975, MaxWithdrawalAmount = 1152921504606846975,
     MinNonce = 0, MaxTimestamp = 281474976710655,
     TxTypeL2Transfer = 12, TxTypeL2Withdraw = 13,
     TemplateTransfer = ''nonce: %s from: %s memo: %s''\<rparr>"

definition sample_transfer :: L2TransferTxInfo where
  "sample_transfer =
    \<lparr>L2TransferTxInfo.FromAccountIndex = 1, ApiKeyIndex = 3, ToAccountIndex = 0,
     AssetIndex = 1, FromRouteType = 0, ToRouteType = 1, Amount = 5000000, USDCFee = 0,
     Memo = replicate 32 0, ExpiredAt = 1700000000000, Nonce = 7, Sig = [],
     L1Sig = [], SignedHash = []\<rparr>"

definition sample_withdraw :: L2WithdrawTxInfo where
  "sample_withdraw =
    \<lparr>L2WithdrawTxInfo.FromAccountIndex = 0, ApiKeyIndex = 3, AssetIndex = 1, RouteType = 1,
     Amount = 5000000, ExpiredAt = 1700000000000, Nonce = 7, Sig = [], SignedHash = []\<rparr>"


definition sample_transfer_world :: "(L2TransferTxInfo, nat) world" where
  "sample_transfer_world = \<lparr>receiver = sample_transfer, libstate = 0\<rparr>"



definition stamping_library :: "(uint64, uint64 list, nat) library" where
  "stamping_library =
    \<lparr>call_FromUint32 = (\<lambda>x n. (ucast x, Suc n)),
     call_FromInt64 = (\<lambda>x n. (x, Suc n)),
     call_FromUint64 = (\<lambda>x n. (x, Suc n)),
     call_HashToQuinticExtension = (\<lambda>xs n. (of_nat n # xs, Suc n)),
     call_ToLittleEndianBytes = (\<lambda>h n. (map ucast h, Suc n))\<rparr>"

subsection \<open>Lowercase hexadecimal, stated independently of the table\<close>

text \<open>
  The lowercase hexadecimal digit of a number below 16 by its character code: the digits
  \<^verbatim>\<open>0\<close> to \<^verbatim>\<open>9\<close> start at code 48, the letters \<^verbatim>\<open>a\<close> to \<^verbatim>\<open>f\<close> at code 97. The encoding of a
  byte sequence is two digits per byte, the high nibble first.
\<close>

definition hex_digit :: "nat \<Rightarrow> char" where
  "hex_digit d = (if d < 10 then char_of (48 + d) else char_of (87 + d))"

definition lowercase_hex :: "uint8 list \<Rightarrow> string" where
  "lowercase_hex src = concat (map (\<lambda>v. [hex_digit (unat v div 16), hex_digit (unat v mod 16)]) src)"


section \<open>Properties\<close>

subsection \<open>Limbs\<close>

lemma limb_low_take_bit: "limb_low v = take_bit 32 v"
proof -
  have "(0xFFFFFFFF :: 64 word) = mask 32"
    by (simp add: mask_eq_exp_minus_1)
  then show ?thesis
    by (simp add: limb_low_def take_bit_eq_mask)
qed

lemma limb_recombine: "limb_low v + push_bit 32 (limb_high v) = v"
  using bits_ident [of 32 v]
  by (simp add: limb_low_take_bit limb_high_def add.commute)

lemma limb_low_uint: "uint (limb_low v) = uint v mod 2 ^ 32"
proof -
  have "uint (take_bit 32 v) = take_bit 32 (uint v)"
    by (rule unsigned_take_bit_eq)
  also have "\<dots> = uint v mod 2 ^ 32"
    by (rule take_bit_eq_mod)
  finally show ?thesis
    by (simp only: limb_low_take_bit)
qed

lemma limb_high_uint: "uint (limb_high v) = uint v div 2 ^ 32"
proof -
  have "uint (drop_bit 32 v) = drop_bit 32 (uint v)"
    using bintr_uint [of 64 v] by (simp add: unsigned_drop_bit_eq)
  also have "\<dots> = uint v div 2 ^ 32"
    by (rule drop_bit_eq_div)
  finally show ?thesis
    by (simp only: limb_high_def)
qed

lemma limb_low_bound: "uint (limb_low v) < 2 ^ 32"
  by (simp add: limb_low_uint)

lemma limb_high_bound: "uint (limb_high v) < 2 ^ 32"
proof -
  have "uint v < 2 ^ 64" using uint_bounded [of v] by simp
  then have "uint v div 2 ^ 32 < 2 ^ 32" by simp
  then show ?thesis by (simp only: limb_high_uint)
qed

lemma limb_recombine_int: "uint (limb_low v) + uint (limb_high v) * 2 ^ 32 = uint v"
  by (simp only: limb_low_uint limb_high_uint mod_div_mult_eq)


subsection \<open>Validate, stage by stage\<close>

lemma transfer_Validate_None_iff:
  "L2TransferTxInfo_Validate K t = None \<longleftrightarrow>
     transfer_from_ok K t \<and> transfer_to_ok K t \<and> transfer_amount_ok K t \<and> transfer_rest_ok K t"
  unfolding L2TransferTxInfo_Validate_def transfer_from_ok_def transfer_to_ok_def
    transfer_amount_ok_def transfer_rest_ok_def
  by (auto simp add: not_less not_le)

lemma withdraw_Validate_None_iff:
  "L2WithdrawTxInfo_Validate K w = None \<longleftrightarrow>
     withdraw_from_ok K w \<and> withdraw_route_ok K w \<and> withdraw_rest_ok K w"
  unfolding L2WithdrawTxInfo_Validate_def withdraw_from_ok_def withdraw_route_ok_def
    withdraw_rest_ok_def
  by (auto simp add: not_less not_le)

lemma transfer_Validate_amount_stage:
  assumes "transfer_from_ok K t" "transfer_to_ok K t" "transfer_rest_ok K t"
  shows "L2TransferTxInfo_Validate K t =
    (if sint (L2TransferTxInfo.Amount t) \<le> 0 then Some ErrTransferAmountTooLow
     else if sint (L2TransferTxInfo.Amount t) > MaxTransferAmount K
       then Some ErrTransferAmountTooHigh
     else None)"
  using assms
  unfolding L2TransferTxInfo_Validate_def transfer_from_ok_def transfer_to_ok_def
    transfer_rest_ok_def
  by (auto simp add: not_less not_le)

lemma transfer_Validate_from_stage:
  "sint (L2TransferTxInfo.FromAccountIndex t) < MinAccountIndex K + 1
    \<Longrightarrow> L2TransferTxInfo_Validate K t = Some ErrFromAccountIndexTooLow"
  by (simp add: L2TransferTxInfo_Validate_def)

lemma transfer_Validate_to_stage:
  assumes "transfer_from_ok K t" "transfer_rest_ok K t"
  shows "L2TransferTxInfo_Validate K t = Some ErrToAccountIndexTooLow
           \<longleftrightarrow> sint (ToAccountIndex t) < MinAccountIndex K"
  using assms
  unfolding L2TransferTxInfo_Validate_def transfer_from_ok_def transfer_rest_ok_def
  by (auto simp add: not_less not_le)

lemma withdraw_Validate_from_stage:
  "L2WithdrawTxInfo_Validate K w = Some ErrFromAccountIndexTooLow
     \<longleftrightarrow> sint (L2WithdrawTxInfo.FromAccountIndex w) < MinAccountIndex K"
  unfolding L2WithdrawTxInfo_Validate_def
  by (auto simp add: not_less not_le)

lemma withdraw_Validate_route_stage:
  assumes "withdraw_from_ok K w" "withdraw_rest_ok K w"
  shows "L2WithdrawTxInfo_Validate K w =
    (if uint (RouteType w) \<noteq> AssetRouteType_Perps K \<and> uint (RouteType w) \<noteq> AssetRouteType_Spot K
     then Some ErrRouteTypeInvalid else None)"
  using assms
  unfolding L2WithdrawTxInfo_Validate_def withdraw_from_ok_def withdraw_rest_ok_def
  by (auto simp add: not_less not_le)


subsection \<open>The sample values satisfy the bounds\<close>

lemma sample_transfer_ok:
  "transfer_from_ok sample_constants (sample_transfer\<lparr>L2TransferTxInfo.Amount := a\<rparr>)"
  "transfer_to_ok sample_constants (sample_transfer\<lparr>L2TransferTxInfo.Amount := a\<rparr>)"
  "transfer_rest_ok sample_constants (sample_transfer\<lparr>L2TransferTxInfo.Amount := a\<rparr>)"
  by (simp_all add: transfer_from_ok_def transfer_to_ok_def transfer_rest_ok_def
      sample_constants_def sample_transfer_def)

lemma sample_withdraw_ok:
  "withdraw_from_ok sample_constants (sample_withdraw\<lparr>RouteType := r\<rparr>)"
  "withdraw_rest_ok sample_constants (sample_withdraw\<lparr>RouteType := r\<rparr>)"
  by (simp_all add: withdraw_from_ok_def withdraw_rest_ok_def
      sample_constants_def sample_withdraw_def)

lemma sample_transfer_from_to:
  "transfer_amount_ok sample_constants
     (sample_transfer\<lparr>L2TransferTxInfo.FromAccountIndex := a, ToAccountIndex := b\<rparr>)"
  "transfer_rest_ok sample_constants
     (sample_transfer\<lparr>L2TransferTxInfo.FromAccountIndex := a, ToAccountIndex := b\<rparr>)"
  by (simp_all add: transfer_amount_ok_def transfer_rest_ok_def
      sample_constants_def sample_transfer_def)

lemma sample_withdraw_from:
  "withdraw_route_ok sample_constants (sample_withdraw\<lparr>L2WithdrawTxInfo.FromAccountIndex := a\<rparr>)"
  "withdraw_rest_ok sample_constants (sample_withdraw\<lparr>L2WithdrawTxInfo.FromAccountIndex := a\<rparr>)"
  by (simp_all add: withdraw_route_ok_def withdraw_rest_ok_def
      sample_constants_def sample_withdraw_def)

lemma sample_account_bounds:
  "MinAccountIndex sample_constants = 0"
  "MaxAccountIndex sample_constants = 281474976710654"
  by (simp_all add: sample_constants_def)

lemma sample_transfer_from_to_ok:
  "transfer_from_ok sample_constants
     (sample_transfer\<lparr>L2TransferTxInfo.FromAccountIndex := a, ToAccountIndex := b\<rparr>)
     \<longleftrightarrow> 1 \<le> sint a \<and> sint a \<le> 281474976710654"
  "transfer_to_ok sample_constants
     (sample_transfer\<lparr>L2TransferTxInfo.FromAccountIndex := a, ToAccountIndex := b\<rparr>)
     \<longleftrightarrow> 0 \<le> sint b \<and> sint b \<le> 281474976710654"
  by (simp_all add: transfer_from_ok_def transfer_to_ok_def sample_constants_def)


subsection \<open>Hexadecimal encoding\<close>

lemma hextable_nth: "n < 16 \<Longrightarrow> hextable ! n \<in> set hextable"
proof -
  assume "n < 16"
  moreover have "length hextable = 16" by (simp add: hextable_def)
  ultimately show ?thesis by (simp add: nth_mem)
qed

lemma nibble_high_unat: "unat (drop_bit 4 (v :: uint8)) = unat v div 16"
proof -
  have "unat (drop_bit 4 v) = drop_bit 4 (unat v)"
    by (rule unat_drop_bit_eq)
  also have "\<dots> = unat v div 2 ^ 4"
    by (rule drop_bit_eq_div)
  finally show ?thesis by simp
qed

lemma nibble_low_unat: "unat ((v :: uint8) AND 0x0f) = unat v mod 16"
proof -
  have "(0x0f :: uint8) = mask 4" by (simp add: mask_eq_exp_minus_1)
  then have "v AND 0x0f = take_bit 4 v" by (simp add: take_bit_eq_mask)
  moreover have "unat (take_bit 4 v) = take_bit 4 (unat v)"
    by (rule unsigned_take_bit_eq)
  moreover have "take_bit 4 (unat v) = unat v mod 2 ^ 4"
    by (rule take_bit_eq_mod)
  ultimately show ?thesis by simp
qed

lemma nibble_high_bound: "unat (drop_bit 4 (v :: uint8)) < 16"
proof -
  have "unat v < 2 ^ 8" using unsigned_less [of v] by simp
  then have "unat v div 2 ^ 4 < 16" by simp
  moreover have "unat (drop_bit 4 v) = drop_bit 4 (unat v)"
    by (rule unat_drop_bit_eq)
  moreover have "drop_bit 4 (unat v) = unat v div 2 ^ 4"
    by (rule drop_bit_eq_div)
  ultimately show ?thesis by simp
qed

lemma nibble_low_bound: "unat ((v :: uint8) AND 0x0f) < 16"
proof -
  have "(0x0f :: uint8) = mask 4" by (simp add: mask_eq_exp_minus_1)
  then have "v AND 0x0f = take_bit 4 v" by (simp add: take_bit_eq_mask)
  moreover have "unat (take_bit 4 v) = take_bit 4 (unat v)"
    by (rule unsigned_take_bit_eq)
  moreover have "take_bit 4 (unat v) = unat v mod 2 ^ 4"
    by (rule take_bit_eq_mod)
  ultimately show ?thesis by simp
qed

lemma EncodeToString_length: "length (EncodeToString src) = 2 * length src"
  by (induction src) simp_all

lemma EncodeToString_chars: "set (EncodeToString src) \<subseteq> set hextable"
  by (induction src) (simp_all add: hextable_nth nibble_high_bound nibble_low_bound)

lemma x_not_hex: "CHR ''x'' \<notin> set hextable"
  by (simp add: hextable_def)

lemma replace_n_absent:
  "CHR ''x'' \<notin> set s \<Longrightarrow> replace_n k s ''0x'' new = s"
proof (induction s arbitrary: k)
  case Nil
  then show ?case by (cases k) simp_all
next
  case (Cons c cs)
  show ?case
  proof (cases k)
    case 0
    then show ?thesis by simp
  next
    case (Suc k')
    have "take 2 (c # cs) \<noteq> ''0x''"
    proof
      assume "take 2 (c # cs) = ''0x''"
      then have "CHR ''x'' \<in> set (take 2 (c # cs))" by simp
      then have "CHR ''x'' \<in> set (c # cs)" by (rule in_set_takeD)
      with Cons.prems show False by simp
    qed
    with Cons Suc show ?thesis by auto
  qed
qed

lemma Replace_0x_hex: "Replace (EncodeToString src) ''0x'' [] 1 = EncodeToString src"
proof -
  have "CHR ''x'' \<notin> set (EncodeToString src)"
    using EncodeToString_chars [of src] x_not_hex by blast
  then show ?thesis
    by (simp add: Replace_def replace_n_absent)
qed

lemma hex_digit_table: "map hex_digit [0 ..< 16] = hextable"
  unfolding hex_digit_def hextable_def by code_simp

lemma hextable_hex_digit:
  assumes "n < 16"
  shows "hextable ! n = hex_digit n"
proof -
  have "hextable ! n = map hex_digit [0 ..< 16] ! n"
    by (simp only: hex_digit_table)
  also have "\<dots> = hex_digit ([0 ..< 16] ! n)"
    using assms by (simp only: nth_map length_upt minus_nat.diff_0)
  also have "\<dots> = hex_digit n"
    using assms by simp
  finally show ?thesis .
qed

lemma EncodeToString_lowercase_hex: "EncodeToString src = lowercase_hex src"
proof (induction src)
  case Nil
  show ?case by (simp add: lowercase_hex_def)
next
  case (Cons v src)
  have "unat v < 2 ^ 8" using unsigned_less [of v] by simp
  then have hi: "unat v div 16 < 16" by simp
  have lo: "unat v mod 16 < 16" by simp
  from Cons show ?case
    by (simp add: lowercase_hex_def nibble_high_unat nibble_low_unat
        hextable_hex_digit [OF hi] hextable_hex_digit [OF lo])
qed

lemma sample_memo_hex:
  "EncodeToString (Memo sample_transfer) = replicate 64 (CHR ''0'')"
  by (simp add: sample_transfer_def hextable_def eval_nat_numeral)


subsection \<open>Runs of Hash\<close>












text \<open>With a library that ignores the state, a run is the first model and changes nothing.\<close>

lemma pure_library_run:
  "L2TransferTxInfo_Hash_run (pure_library P) K c extra w
     = (L2TransferTxInfo_Hash P K (receiver w) c extra, w)"
  "L2WithdrawTxInfo_Hash_run (pure_library P) K c extra w'
     = (L2WithdrawTxInfo_Hash P K (receiver w') c extra, w')"
  by (simp_all add: L2TransferTxInfo_Hash_run_def L2TransferTxInfo_Hash_run_elems_def
      L2WithdrawTxInfo_Hash_run_def L2WithdrawTxInfo_Hash_run_elems_def
      L2TransferTxInfo_Hash_def L2TransferTxInfo_Hash_elems_def
      L2WithdrawTxInfo_Hash_def L2WithdrawTxInfo_Hash_elems_def
      pure_library_def append_call_def)



text \<open>
  Determinism is a property a run can lack: with the stamping library, the second of two
  calls on the same transaction and chain id returns other bytes than the first.
\<close>

lemma stamping_library_not_repeatable:
  "fst (L2TransferTxInfo_Hash_run stamping_library sample_constants 304 []
          (snd (L2TransferTxInfo_Hash_run stamping_library sample_constants 304 []
             sample_transfer_world)))
   \<noteq> fst (L2TransferTxInfo_Hash_run stamping_library sample_constants 304 []
          sample_transfer_world)"
proof
  assume "fst (L2TransferTxInfo_Hash_run stamping_library sample_constants 304 []
          (snd (L2TransferTxInfo_Hash_run stamping_library sample_constants 304 []
             sample_transfer_world)))
   = fst (L2TransferTxInfo_Hash_run stamping_library sample_constants 304 []
          sample_transfer_world)"
  then have "fst (fst (L2TransferTxInfo_Hash_run stamping_library sample_constants 304 []
          (snd (L2TransferTxInfo_Hash_run stamping_library sample_constants 304 []
             sample_transfer_world)))) ! 0
   = fst (fst (L2TransferTxInfo_Hash_run stamping_library sample_constants 304 []
          sample_transfer_world)) ! 0"
    by simp
  then show False
    by (simp add: L2TransferTxInfo_Hash_run_def L2TransferTxInfo_Hash_run_elems_def
      stamping_library_def append_call_def sample_transfer_world_def)
qed

section \<open>The claims\<close>

subsection \<open>Canonical preimages\<close>

text \<open>
  Claim C1. For every transfer and every chain id, \<^verbatim>\<open>Hash\<close> builds exactly 14 field
  elements, in the order chain tag, type tag \<^verbatim>\<open>TxTypeL2Transfer\<close>, nonce, expiry,
  from-account, API-key index, to-account, asset index, from-route, to-route, amount low
  limb, amount high limb, fee low limb, fee high limb, and the digest is the serialised
  sponge hash of exactly this sequence, whatever \<^verbatim>\<open>extra\<close> holds.
\<close>

theorem transfer_Hash_preimage:
  "L2TransferTxInfo_Hash_elems P K txInfo lighterChainId =
     [FromUint32 P lighterChainId,
      FromUint32 P (word_of_int (TxTypeL2Transfer K)),
      FromInt64 P (L2TransferTxInfo.Nonce txInfo),
      FromInt64 P (L2TransferTxInfo.ExpiredAt txInfo),
      FromInt64 P (L2TransferTxInfo.FromAccountIndex txInfo),
      FromUint32 P (ucast (L2TransferTxInfo.ApiKeyIndex txInfo)),
      FromInt64 P (ToAccountIndex txInfo),
      FromUint32 P (scast (L2TransferTxInfo.AssetIndex txInfo)),
      FromUint32 P (ucast (FromRouteType txInfo)),
      FromUint32 P (ucast (ToRouteType txInfo)),
      FromUint64 P (L2TransferTxInfo.Amount txInfo AND 0xFFFFFFFF),
      FromUint64 P (drop_bit 32 (L2TransferTxInfo.Amount txInfo)),
      FromUint64 P (USDCFee txInfo AND 0xFFFFFFFF),
      FromUint64 P (drop_bit 32 (USDCFee txInfo))]
   \<and> length (L2TransferTxInfo_Hash_elems P K txInfo lighterChainId) = 14
   \<and> fst (L2TransferTxInfo_Hash P K txInfo lighterChainId extra) =
       ToLittleEndianBytes P (HashToQuinticExtension P
         [FromUint32 P lighterChainId,
          FromUint32 P (word_of_int (TxTypeL2Transfer K)),
          FromInt64 P (L2TransferTxInfo.Nonce txInfo),
          FromInt64 P (L2TransferTxInfo.ExpiredAt txInfo),
          FromInt64 P (L2TransferTxInfo.FromAccountIndex txInfo),
          FromUint32 P (ucast (L2TransferTxInfo.ApiKeyIndex txInfo)),
          FromInt64 P (ToAccountIndex txInfo),
          FromUint32 P (scast (L2TransferTxInfo.AssetIndex txInfo)),
          FromUint32 P (ucast (FromRouteType txInfo)),
          FromUint32 P (ucast (ToRouteType txInfo)),
          FromUint64 P (L2TransferTxInfo.Amount txInfo AND 0xFFFFFFFF),
          FromUint64 P (drop_bit 32 (L2TransferTxInfo.Amount txInfo)),
          FromUint64 P (USDCFee txInfo AND 0xFFFFFFFF),
          FromUint64 P (drop_bit 32 (USDCFee txInfo))])"
  by (simp add: L2TransferTxInfo_Hash_def L2TransferTxInfo_Hash_elems_def Let_def
      limb_low_def limb_high_def)

text \<open>
  Claim C2. For every withdrawal and every chain id, \<^verbatim>\<open>Hash\<close> builds exactly 10 field
  elements, in the order chain tag, type tag \<^verbatim>\<open>TxTypeL2Withdraw\<close>, nonce, expiry,
  from-account, API-key index, asset index, route, amount low limb, amount high limb, and
  the digest is the serialised sponge hash of exactly this sequence.
\<close>

theorem withdraw_Hash_preimage:
  "L2WithdrawTxInfo_Hash_elems P K txInfo lighterChainId =
     [FromUint32 P lighterChainId,
      FromUint32 P (word_of_int (TxTypeL2Withdraw K)),
      FromInt64 P (L2WithdrawTxInfo.Nonce txInfo),
      FromInt64 P (L2WithdrawTxInfo.ExpiredAt txInfo),
      FromInt64 P (L2WithdrawTxInfo.FromAccountIndex txInfo),
      FromUint32 P (ucast (L2WithdrawTxInfo.ApiKeyIndex txInfo)),
      FromUint32 P (scast (L2WithdrawTxInfo.AssetIndex txInfo)),
      FromUint32 P (ucast (RouteType txInfo)),
      FromUint64 P (L2WithdrawTxInfo.Amount txInfo AND 0xFFFFFFFF),
      FromUint64 P (drop_bit 32 (L2WithdrawTxInfo.Amount txInfo))]
   \<and> length (L2WithdrawTxInfo_Hash_elems P K txInfo lighterChainId) = 10
   \<and> fst (L2WithdrawTxInfo_Hash P K txInfo lighterChainId extra) =
       ToLittleEndianBytes P (HashToQuinticExtension P
         [FromUint32 P lighterChainId,
          FromUint32 P (word_of_int (TxTypeL2Withdraw K)),
          FromInt64 P (L2WithdrawTxInfo.Nonce txInfo),
          FromInt64 P (L2WithdrawTxInfo.ExpiredAt txInfo),
          FromInt64 P (L2WithdrawTxInfo.FromAccountIndex txInfo),
          FromUint32 P (ucast (L2WithdrawTxInfo.ApiKeyIndex txInfo)),
          FromUint32 P (scast (L2WithdrawTxInfo.AssetIndex txInfo)),
          FromUint32 P (ucast (RouteType txInfo)),
          FromUint64 P (L2WithdrawTxInfo.Amount txInfo AND 0xFFFFFFFF),
          FromUint64 P (drop_bit 32 (L2WithdrawTxInfo.Amount txInfo))])"
  by (simp add: L2WithdrawTxInfo_Hash_def L2WithdrawTxInfo_Hash_elems_def Let_def
      limb_low_def limb_high_def)


subsection \<open>Domain separation of the preimages\<close>

text \<open>
  The two preimages never coincide (their lengths differ), position 1 holds the type tag,
  and position 0 the chain tag. Whether the digests differ as well is a property of the
  external sponge hash: equal digests of a transfer and a withdrawal exhibit a collision of
  the hash on two different inputs.
\<close>

lemma preimage_tags:
  "L2TransferTxInfo_Hash_elems P K t c ! 0 = FromUint32 P c"
  "L2TransferTxInfo_Hash_elems P K t c ! 1 = FromUint32 P (word_of_int (TxTypeL2Transfer K))"
  "L2WithdrawTxInfo_Hash_elems P K w c ! 0 = FromUint32 P c"
  "L2WithdrawTxInfo_Hash_elems P K w c ! 1 = FromUint32 P (word_of_int (TxTypeL2Withdraw K))"
  by (simp_all add: L2TransferTxInfo_Hash_elems_def L2WithdrawTxInfo_Hash_elems_def)

lemma preimages_differ:
  "L2TransferTxInfo_Hash_elems P K t c \<noteq> L2WithdrawTxInfo_Hash_elems P K w c'"
proof
  assume "L2TransferTxInfo_Hash_elems P K t c = L2WithdrawTxInfo_Hash_elems P K w c'"
  then have "length (L2TransferTxInfo_Hash_elems P K t c)
      = length (L2WithdrawTxInfo_Hash_elems P K w c')"
    by simp
  then show False
    by (simp add: L2TransferTxInfo_Hash_elems_def L2WithdrawTxInfo_Hash_elems_def)
qed

lemma preimage_chain_differ:
  assumes "FromUint32 P c \<noteq> FromUint32 P c'"
  shows "L2TransferTxInfo_Hash_elems P K t c \<noteq> L2TransferTxInfo_Hash_elems P K t c'"
    and "L2WithdrawTxInfo_Hash_elems P K w c \<noteq> L2WithdrawTxInfo_Hash_elems P K w c'"
  using assms
  by (simp_all add: L2TransferTxInfo_Hash_elems_def L2WithdrawTxInfo_Hash_elems_def)

lemma equal_digests_collide:
  assumes "fst (L2TransferTxInfo_Hash P K t c extra) = fst (L2WithdrawTxInfo_Hash P K w c' extra')"
  shows "\<exists>xs ys. xs \<noteq> ys
    \<and> ToLittleEndianBytes P (HashToQuinticExtension P xs)
      = ToLittleEndianBytes P (HashToQuinticExtension P ys)"
  using assms preimages_differ [of P K t c w c']
  unfolding L2TransferTxInfo_Hash_def L2WithdrawTxInfo_Hash_def fst_conv
  by blast

subsection \<open>Validation\<close>

text \<open>
  Claim C4. For a transfer whose other fields satisfy their bounds, \<^verbatim>\<open>Validate\<close> returns
  \<^verbatim>\<open>ErrTransferAmountTooLow\<close> when \<^verbatim>\<open>Amount = 0\<close>, \<^verbatim>\<open>ErrTransferAmountTooHigh\<close> when
  \<^verbatim>\<open>Amount = MaxTransferAmount + 1\<close>, and no error for every amount with
  \<^verbatim>\<open>0 < Amount\<close> and \<^verbatim>\<open>Amount <= MaxTransferAmount\<close>.
\<close>

theorem transfer_Validate_amount_bounds:
  assumes "transfer_from_ok K t" and "transfer_to_ok K t" and "transfer_rest_ok K t"
  shows "(L2TransferTxInfo.Amount t = 0
            \<longrightarrow> L2TransferTxInfo_Validate K t = Some ErrTransferAmountTooLow)
       \<and> (sint (L2TransferTxInfo.Amount t) = MaxTransferAmount K + 1
            \<longrightarrow> L2TransferTxInfo_Validate K t = Some ErrTransferAmountTooHigh)
       \<and> (0 < sint (L2TransferTxInfo.Amount t)
            \<and> sint (L2TransferTxInfo.Amount t) \<le> MaxTransferAmount K
            \<longrightarrow> L2TransferTxInfo_Validate K t = None)"
proof -
  have fee: "0 \<le> MaxTransferAmount K"
    using assms(3) by (auto simp add: transfer_rest_ok_def)
  show ?thesis
    using fee by (auto simp add: transfer_Validate_amount_stage [OF assms])
qed

text \<open>
  At the sample transfer: amounts 0, \<^verbatim>\<open>MaxTransferAmount + 1\<close>, \<^verbatim>\<open>MaxTransferAmount\<close> and 1.
\<close>

theorem transfer_Validate_amount_bounds_witness:
  "transfer_from_ok sample_constants sample_transfer
   \<and> transfer_to_ok sample_constants sample_transfer
   \<and> transfer_rest_ok sample_constants sample_transfer
   \<and> L2TransferTxInfo_Validate sample_constants
        (sample_transfer\<lparr>L2TransferTxInfo.Amount := 0\<rparr>) = Some ErrTransferAmountTooLow
   \<and> L2TransferTxInfo_Validate sample_constants
        (sample_transfer\<lparr>L2TransferTxInfo.Amount := 1152921504606846976\<rparr>)
        = Some ErrTransferAmountTooHigh
   \<and> L2TransferTxInfo_Validate sample_constants
        (sample_transfer\<lparr>L2TransferTxInfo.Amount := 1152921504606846975\<rparr>) = None
   \<and> L2TransferTxInfo_Validate sample_constants
        (sample_transfer\<lparr>L2TransferTxInfo.Amount := 1\<rparr>) = None"
  using sample_transfer_ok [of "L2TransferTxInfo.Amount sample_transfer"]
    transfer_Validate_amount_bounds [OF sample_transfer_ok, of 0]
    transfer_Validate_amount_bounds [OF sample_transfer_ok, of 1152921504606846976]
    transfer_Validate_amount_bounds [OF sample_transfer_ok, of 1152921504606846975]
    transfer_Validate_amount_bounds [OF sample_transfer_ok, of 1]
  by (simp add: sample_constants_def)

text \<open>
  Claim C5. For a withdrawal whose other fields satisfy their bounds, \<^verbatim>\<open>Validate\<close>
  returns \<^verbatim>\<open>ErrRouteTypeInvalid\<close> exactly when \<^verbatim>\<open>RouteType\<close> is neither
  \<^verbatim>\<open>AssetRouteType_Perps\<close> nor \<^verbatim>\<open>AssetRouteType_Spot\<close>, and succeeds for either constant.
\<close>

theorem withdraw_Validate_route:
  assumes "withdraw_from_ok K w" and "withdraw_rest_ok K w"
  shows "(L2WithdrawTxInfo_Validate K w = Some ErrRouteTypeInvalid
            \<longleftrightarrow> uint (RouteType w) \<noteq> AssetRouteType_Perps K
                \<and> uint (RouteType w) \<noteq> AssetRouteType_Spot K)
       \<and> (uint (RouteType w) = AssetRouteType_Perps K \<or> uint (RouteType w) = AssetRouteType_Spot K
            \<longrightarrow> L2WithdrawTxInfo_Validate K w = None)"
  by (auto simp add: withdraw_Validate_route_stage [OF assms])

text \<open>
  At the sample withdrawal: route types 0 and 1 pass, 2 and 255 are rejected.
\<close>

theorem withdraw_Validate_route_witness:
  "withdraw_from_ok sample_constants sample_withdraw
   \<and> withdraw_rest_ok sample_constants sample_withdraw
   \<and> L2WithdrawTxInfo_Validate sample_constants (sample_withdraw\<lparr>RouteType := 0\<rparr>) = None
   \<and> L2WithdrawTxInfo_Validate sample_constants (sample_withdraw\<lparr>RouteType := 1\<rparr>) = None
   \<and> L2WithdrawTxInfo_Validate sample_constants (sample_withdraw\<lparr>RouteType := 2\<rparr>)
        = Some ErrRouteTypeInvalid
   \<and> L2WithdrawTxInfo_Validate sample_constants (sample_withdraw\<lparr>RouteType := 255\<rparr>)
        = Some ErrRouteTypeInvalid"
  using sample_withdraw_ok [of "RouteType sample_withdraw"]
    withdraw_Validate_route [OF sample_withdraw_ok, of 0]
    withdraw_Validate_route [OF sample_withdraw_ok, of 1]
    withdraw_Validate_route [OF sample_withdraw_ok, of 2]
    withdraw_Validate_route [OF sample_withdraw_ok, of 255]
  by (simp add: sample_constants_def)

text \<open>
  Claim C6. The transfer \<^verbatim>\<open>Validate\<close> rejects every \<^verbatim>\<open>FromAccountIndex\<close> below
  \<^verbatim>\<open>MinAccountIndex + 1\<close> with \<^verbatim>\<open>ErrFromAccountIndexTooLow\<close> and, the other fields being
  within bounds, accepts exactly the senders from \<^verbatim>\<open>MinAccountIndex + 1\<close> up and exactly
  the recipients from \<^verbatim>\<open>MinAccountIndex\<close> up; the withdrawal \<^verbatim>\<open>Validate\<close> accepts exactly
  the senders from \<^verbatim>\<open>MinAccountIndex\<close> up. So the least transfer sender is one above the
  least transfer recipient and the least withdrawal sender.
\<close>

theorem account_index_minimums:
  "(sint (L2TransferTxInfo.FromAccountIndex t) < MinAccountIndex K + 1
      \<longrightarrow> L2TransferTxInfo_Validate K t = Some ErrFromAccountIndexTooLow)
   \<and> (transfer_to_ok K t \<and> transfer_amount_ok K t \<and> transfer_rest_ok K t
      \<longrightarrow> (L2TransferTxInfo_Validate K t = None
             \<longleftrightarrow> MinAccountIndex K + 1 \<le> sint (L2TransferTxInfo.FromAccountIndex t)
               \<and> sint (L2TransferTxInfo.FromAccountIndex t) \<le> MaxAccountIndex K))
   \<and> (transfer_from_ok K t \<and> transfer_amount_ok K t \<and> transfer_rest_ok K t
      \<longrightarrow> (L2TransferTxInfo_Validate K t = None
             \<longleftrightarrow> MinAccountIndex K \<le> sint (ToAccountIndex t)
               \<and> sint (ToAccountIndex t) \<le> MaxAccountIndex K)
        \<and> (L2TransferTxInfo_Validate K t = Some ErrToAccountIndexTooLow
             \<longleftrightarrow> sint (ToAccountIndex t) < MinAccountIndex K))
   \<and> (withdraw_route_ok K w \<and> withdraw_rest_ok K w
      \<longrightarrow> (L2WithdrawTxInfo_Validate K w = None
             \<longleftrightarrow> MinAccountIndex K \<le> sint (L2WithdrawTxInfo.FromAccountIndex w)
               \<and> sint (L2WithdrawTxInfo.FromAccountIndex w) \<le> MaxAccountIndex K)
        \<and> (L2WithdrawTxInfo_Validate K w = Some ErrFromAccountIndexTooLow
             \<longleftrightarrow> sint (L2WithdrawTxInfo.FromAccountIndex w) < MinAccountIndex K))"
proof (intro conjI impI)
  assume "sint (L2TransferTxInfo.FromAccountIndex t) < MinAccountIndex K + 1"
  then show "L2TransferTxInfo_Validate K t = Some ErrFromAccountIndexTooLow"
    by (rule transfer_Validate_from_stage)
next
  assume "transfer_to_ok K t \<and> transfer_amount_ok K t \<and> transfer_rest_ok K t"
  then show "L2TransferTxInfo_Validate K t = None
      \<longleftrightarrow> MinAccountIndex K + 1 \<le> sint (L2TransferTxInfo.FromAccountIndex t)
        \<and> sint (L2TransferTxInfo.FromAccountIndex t) \<le> MaxAccountIndex K"
    by (simp add: transfer_Validate_None_iff transfer_from_ok_def)
next
  assume "transfer_from_ok K t \<and> transfer_amount_ok K t \<and> transfer_rest_ok K t"
  then show "L2TransferTxInfo_Validate K t = None
      \<longleftrightarrow> MinAccountIndex K \<le> sint (ToAccountIndex t)
        \<and> sint (ToAccountIndex t) \<le> MaxAccountIndex K"
    by (simp add: transfer_Validate_None_iff transfer_to_ok_def)
next
  assume "transfer_from_ok K t \<and> transfer_amount_ok K t \<and> transfer_rest_ok K t"
  then show "L2TransferTxInfo_Validate K t = Some ErrToAccountIndexTooLow
      \<longleftrightarrow> sint (ToAccountIndex t) < MinAccountIndex K"
    by (simp add: transfer_Validate_to_stage)
next
  assume "withdraw_route_ok K w \<and> withdraw_rest_ok K w"
  then show "L2WithdrawTxInfo_Validate K w = None
      \<longleftrightarrow> MinAccountIndex K \<le> sint (L2WithdrawTxInfo.FromAccountIndex w)
        \<and> sint (L2WithdrawTxInfo.FromAccountIndex w) \<le> MaxAccountIndex K"
    by (simp add: withdraw_Validate_None_iff withdraw_from_ok_def)
next
  show "L2WithdrawTxInfo_Validate K w = Some ErrFromAccountIndexTooLow
      \<longleftrightarrow> sint (L2WithdrawTxInfo.FromAccountIndex w) < MinAccountIndex K"
    by (rule withdraw_Validate_from_stage)
qed

text \<open>
  At the sample values, where \<^verbatim>\<open>MinAccountIndex\<close> is 0: sender 0 is rejected and sender 1
  accepted by the transfer, recipient 0 is accepted and recipient -1 rejected, and the
  withdrawal accepts sender 0 and rejects sender -1.
\<close>

theorem account_index_minimums_witness:
  "L2TransferTxInfo_Validate sample_constants
     (sample_transfer\<lparr>L2TransferTxInfo.FromAccountIndex := 0, ToAccountIndex := 0\<rparr>)
     = Some ErrFromAccountIndexTooLow
   \<and> L2TransferTxInfo_Validate sample_constants
     (sample_transfer\<lparr>L2TransferTxInfo.FromAccountIndex := 1, ToAccountIndex := 0\<rparr>) = None
   \<and> L2TransferTxInfo_Validate sample_constants
     (sample_transfer\<lparr>L2TransferTxInfo.FromAccountIndex := 1, ToAccountIndex := - 1\<rparr>)
     = Some ErrToAccountIndexTooLow
   \<and> L2WithdrawTxInfo_Validate sample_constants
     (sample_withdraw\<lparr>L2WithdrawTxInfo.FromAccountIndex := 0\<rparr>) = None
   \<and> L2WithdrawTxInfo_Validate sample_constants
     (sample_withdraw\<lparr>L2WithdrawTxInfo.FromAccountIndex := - 1\<rparr>)
     = Some ErrFromAccountIndexTooLow"
  using
    account_index_minimums [of
      "sample_transfer\<lparr>L2TransferTxInfo.FromAccountIndex := 0, ToAccountIndex := 0\<rparr>"
      sample_constants "sample_withdraw\<lparr>L2WithdrawTxInfo.FromAccountIndex := 0\<rparr>"]
    account_index_minimums [of
      "sample_transfer\<lparr>L2TransferTxInfo.FromAccountIndex := 1, ToAccountIndex := 0\<rparr>"
      sample_constants "sample_withdraw\<lparr>L2WithdrawTxInfo.FromAccountIndex := - 1\<rparr>"]
    account_index_minimums [of
      "sample_transfer\<lparr>L2TransferTxInfo.FromAccountIndex := 1, ToAccountIndex := - 1\<rparr>"
      sample_constants "sample_withdraw\<lparr>L2WithdrawTxInfo.FromAccountIndex := 0\<rparr>"]
  by (simp add: sample_transfer_from_to sample_withdraw_from sample_transfer_from_to_ok
      sample_account_bounds)


subsection \<open>Limb splitting\<close>

text \<open>
  Claim C7. For every 64-bit value \<open>v\<close>, the low limb \<^verbatim>\<open>v & 0xFFFFFFFF\<close> and the high limb
  \<^verbatim>\<open>v >> 32\<close>, which the preimage builders emit low first for amount and fee, give \<open>v\<close>
  back as \<^verbatim>\<open>low + (high << 32)\<close>, in 64-bit arithmetic and over the integers, each limb
  being below \<open>2 ^ 32\<close>; in particular at 0, 1, \<open>2 ^ 32 - 1\<close>, \<open>2 ^ 32\<close> and \<open>2 ^ 64 - 1\<close>.
\<close>

theorem limb_split_roundtrip:
  "limb_low v + push_bit 32 (limb_high v) = v
   \<and> uint (limb_low v) + uint (limb_high v) * 2 ^ 32 = uint v
   \<and> uint (limb_low v) < 2 ^ 32 \<and> uint (limb_high v) < 2 ^ 32
   \<and> L2TransferTxInfo_Hash_elems P K t c ! 10 = FromUint64 P (limb_low (L2TransferTxInfo.Amount t))
   \<and> L2TransferTxInfo_Hash_elems P K t c ! 11 = FromUint64 P (limb_high (L2TransferTxInfo.Amount t))
   \<and> L2TransferTxInfo_Hash_elems P K t c ! 12 = FromUint64 P (limb_low (USDCFee t))
   \<and> L2TransferTxInfo_Hash_elems P K t c ! 13 = FromUint64 P (limb_high (USDCFee t))
   \<and> L2WithdrawTxInfo_Hash_elems P K w c ! 8 = FromUint64 P (limb_low (L2WithdrawTxInfo.Amount w))
   \<and> L2WithdrawTxInfo_Hash_elems P K w c ! 9 = FromUint64 P (limb_high (L2WithdrawTxInfo.Amount w))
   \<and> (limb_low 0, limb_high 0) = (0, 0)
   \<and> (limb_low 1, limb_high 1) = (1, 0)
   \<and> (limb_low 0xFFFFFFFF, limb_high 0xFFFFFFFF) = (0xFFFFFFFF, 0)
   \<and> (limb_low 0x100000000, limb_high 0x100000000) = (0, 1)
   \<and> (limb_low 0xFFFFFFFFFFFFFFFF, limb_high 0xFFFFFFFFFFFFFFFF) = (0xFFFFFFFF, 0xFFFFFFFF)"
proof -
  have positions:
    "L2TransferTxInfo_Hash_elems P K t c ! 10 = FromUint64 P (limb_low (L2TransferTxInfo.Amount t))
     \<and> L2TransferTxInfo_Hash_elems P K t c ! 11 = FromUint64 P (limb_high (L2TransferTxInfo.Amount t))
     \<and> L2TransferTxInfo_Hash_elems P K t c ! 12 = FromUint64 P (limb_low (USDCFee t))
     \<and> L2TransferTxInfo_Hash_elems P K t c ! 13 = FromUint64 P (limb_high (USDCFee t))
     \<and> L2WithdrawTxInfo_Hash_elems P K w c ! 8 = FromUint64 P (limb_low (L2WithdrawTxInfo.Amount w))
     \<and> L2WithdrawTxInfo_Hash_elems P K w c ! 9 = FromUint64 P (limb_high (L2WithdrawTxInfo.Amount w))"
    by (simp add: L2TransferTxInfo_Hash_elems_def L2WithdrawTxInfo_Hash_elems_def)
  have edges:
    "(limb_low 0, limb_high 0) = (0, 0)
     \<and> (limb_low 1, limb_high 1) = (1, 0)
     \<and> (limb_low 0xFFFFFFFF, limb_high 0xFFFFFFFF) = (0xFFFFFFFF, 0)
     \<and> (limb_low 0x100000000, limb_high 0x100000000) = (0, 1)
     \<and> (limb_low 0xFFFFFFFFFFFFFFFF, limb_high 0xFFFFFFFFFFFFFFFF) = (0xFFFFFFFF, 0xFFFFFFFF)"
    by (simp add: limb_low_def limb_high_def)
  from limb_recombine [of v] limb_recombine_int [of v] limb_low_bound [of v]
    limb_high_bound [of v] positions edges
  show ?thesis by blast
qed

subsection \<open>Repeated calls of Hash\<close>



text \<open>
  Claim C9. The error result of \<^verbatim>\<open>Hash\<close> is \<^verbatim>\<open>nil\<close> for every transfer, every withdrawal
  and every chain id, whether or not the fields are within their bounds.
\<close>

theorem Hash_error_nil:
  "snd (L2TransferTxInfo_Hash P K t lighterChainId extra) = None
   \<and> snd (L2WithdrawTxInfo_Hash P K w lighterChainId extra') = None"
  by (simp add: L2TransferTxInfo_Hash_def L2WithdrawTxInfo_Hash_def)


subsection \<open>The memo token of the L1 signature body\<close>

text \<open>
  Claim C10. The last operand substituted into the template by \<^verbatim>\<open>GetL1SignatureBody\<close>
  is the lowercase hexadecimal encoding of the 32-byte memo, 64 characters long; the
  \<^verbatim>\<open>strings.Replace\<close> of \<^verbatim>\<open>"0x"\<close> leaves it as it is, because the encoding of any byte
  sequence \<open>src\<close> has no character \<^verbatim>\<open>x\<close>.
\<close>

theorem GetL1SignatureBody_memo_token:
  assumes "length (Memo txInfo) = 32"
  shows "L2TransferTxInfo_GetL1SignatureBody Sprintf getHex10FromUint64 K txInfo chainId =
      Sprintf (TemplateTransfer K)
        [getHex10FromUint64 (L2TransferTxInfo.Nonce txInfo),
         getHex10FromUint64 (L2TransferTxInfo.FromAccountIndex txInfo),
         getHex10FromUint64 (ucast (FromRouteType txInfo)),
         getHex10FromUint64 (ucast (L2TransferTxInfo.ApiKeyIndex txInfo)),
         getHex10FromUint64 (ToAccountIndex txInfo),
         getHex10FromUint64 (ucast (ToRouteType txInfo)),
         getHex10FromUint64 (scast (L2TransferTxInfo.AssetIndex txInfo)),
         getHex10FromUint64 (L2TransferTxInfo.Amount txInfo),
         getHex10FromUint64 (USDCFee txInfo),
         getHex10FromUint64 (ucast chainId),
         EncodeToString (Memo txInfo)]
    \<and> EncodeToString (Memo txInfo) = lowercase_hex (Memo txInfo)
    \<and> length (EncodeToString (Memo txInfo)) = 64
    \<and> set (EncodeToString (Memo txInfo)) \<subseteq> set ''0123456789abcdef''
    \<and> Replace (EncodeToString src) ''0x'' [] 1 = EncodeToString src
    \<and> CHR ''x'' \<notin> set (EncodeToString src)"
proof -
  have "CHR ''x'' \<notin> set (EncodeToString src)"
    using EncodeToString_chars [of src] x_not_hex by blast
  moreover have "set (EncodeToString (Memo txInfo)) \<subseteq> set ''0123456789abcdef''"
    using EncodeToString_chars [of "Memo txInfo"] by (simp only: hextable_def)
  moreover have "length (EncodeToString (Memo txInfo)) = 64"
    using assms by (simp add: EncodeToString_length)
  ultimately show ?thesis
    by (simp add: L2TransferTxInfo_GetL1SignatureBody_def Replace_0x_hex
        EncodeToString_lowercase_hex [symmetric])
qed

text \<open>
  At the sample transfer, whose memo is all zero, with a formatter that returns its
  eleventh operand; and the encoding of three bytes that spell \<^verbatim>\<open>0f30a0\<close>.
\<close>

theorem GetL1SignatureBody_memo_token_witness:
  "length (Memo sample_transfer) = 32
   \<and> L2TransferTxInfo_GetL1SignatureBody (\<lambda>template operands. operands ! 10) (\<lambda>v. [])
        sample_constants sample_transfer 304 = replicate 64 (CHR ''0'')
   \<and> length (EncodeToString (Memo sample_transfer)) = 64
   \<and> Replace (EncodeToString [0x0f, 0x30, 0xa0]) ''0x'' [] 1 = ''0f30a0''"
proof -
  have len: "length (Memo sample_transfer) = 32"
    by (simp add: sample_transfer_def)
  have enc: "EncodeToString [0x0f, 0x30, 0xa0] = ''0f30a0''"
    by (simp add: hextable_def)
  note token = GetL1SignatureBody_memo_token [OF len,
      of "\<lambda>template operands. operands ! 10" "\<lambda>v. []" sample_constants 304 "[0x0f, 0x30, 0xa0]"]
  have body: "L2TransferTxInfo_GetL1SignatureBody (\<lambda>template operands. operands ! 10) (\<lambda>v. [])
        sample_constants sample_transfer 304 = EncodeToString (Memo sample_transfer)"
    using token by simp
  have size: "length (EncodeToString (Memo sample_transfer)) = 64"
    using token by blast
  have kept: "Replace (EncodeToString [0x0f, 0x30, 0xa0]) ''0x'' [] 1
      = EncodeToString [0x0f, 0x30, 0xa0]"
    using token by blast
  have body': "L2TransferTxInfo_GetL1SignatureBody (\<lambda>template operands. operands ! 10)
        (\<lambda>v. []) sample_constants sample_transfer 304 = replicate 64 (CHR ''0'')"
    using body by (simp only: sample_memo_hex)
  have kept': "Replace (EncodeToString [0x0f, 0x30, 0xa0]) ''0x'' [] 1 = ''0f30a0''"
    using kept by (simp only: enc)
  from len body' size kept' show ?thesis by blast
qed


end
